theory Spec2Isabelle
  imports Complex_Main "HOL-Library.Char_ord" "HOL-Library.List_Lexorder"
    "HOL-Library.Product_Lexorder" "HOL-Library.Multiset" "HOL-Library.Word"
begin

section \<open>Memory-based collaborative filtering on the Last.fm play counts\<close>

text \<open>
  The notebook \<^verbatim>\<open>last-fm-cf.ipynb\<close> builds an artist-by-user matrix of play counts with
  pandas (\<^verbatim>\<open>groupby\<close>, \<^verbatim>\<open>pivot\<close>, \<^verbatim>\<open>fillna\<close>), stores it as a scipy sparse matrix,
  computes pairwise cosine distances with scikit-learn and predicts play counts with the
  function \<^verbatim>\<open>predict\<close>, written with numpy.

  The play counts are int64 and their sums wrap around, as in pandas. Floating-point
  numbers are modelled as exact reals: rounding and overflow of float64 are left out, and
  so is the rounding of an int64 that becomes a float64. What numpy does at a division by
  zero is kept: the quotient is \<open>nan\<close> or an infinity, with a warning and no exception.
\<close>

subsection \<open>Values and errors\<close>

datatype error = ValueError | ZeroDivisionError | UnboundLocalError | IndexError | KeyError

datatype npfloat = Fin real | PInf | NInf | NaN

text \<open>\<^verbatim>\<open>x / y\<close> on float64 arrays: the divisor of \<^verbatim>\<open>predict\<close> is a sum of absolute
  values, so a zero divisor is \<open>+0.0\<close>.\<close>

definition np_true_divide :: "real \<Rightarrow> real \<Rightarrow> npfloat" where
  "np_true_divide x y =
     (if y \<noteq> 0 then Fin (x / y)
      else if x = 0 then NaN
      else if 0 < x then PInf else NInf)"

fun np_add :: "npfloat \<Rightarrow> npfloat \<Rightarrow> npfloat" where
  "np_add (Fin x) (Fin y) = Fin (x + y)"
| "np_add NaN _ = NaN"
| "np_add _ NaN = NaN"
| "np_add PInf NInf = NaN"
| "np_add NInf PInf = NaN"
| "np_add PInf _ = PInf"
| "np_add _ PInf = PInf"
| "np_add NInf _ = NInf"
| "np_add _ NInf = NInf"

subsection \<open>Two-dimensional arrays\<close>

text \<open>A numpy array or matrix of two dimensions: its shape and its cells. A cell is read
  only inside the shape.\<close>

record 'a ndarray =
  nrows :: nat
  ncols :: nat
  cell :: "nat \<Rightarrow> nat \<Rightarrow> 'a"

text \<open>\<^verbatim>\<open>np.array(rows)\<close> for a list of rows of one length.\<close>

definition np_array :: "'a list list \<Rightarrow> 'a ndarray" where
  "np_array rows =
     \<lparr>nrows = length rows,
      ncols = (case rows of [] \<Rightarrow> 0 | r # _ \<Rightarrow> length r),
      cell = (\<lambda>i j. rows ! i ! j)\<rparr>"

text \<open>\<^verbatim>\<open>A.T\<close>\<close>

definition T :: "'a ndarray \<Rightarrow> 'a ndarray" where
  "T A = \<lparr>nrows = ncols A, ncols = nrows A, cell = (\<lambda>i j. cell A j i)\<rparr>"

text \<open>\<^verbatim>\<open>np.abs(A)\<close>\<close>

definition np_abs :: "real ndarray \<Rightarrow> real ndarray" where
  "np_abs A = \<lparr>nrows = nrows A, ncols = ncols A, cell = (\<lambda>i j. \<bar>cell A i j\<bar>)\<rparr>"

text \<open>\<^verbatim>\<open>A.sum(axis=1)\<close>: the one-dimensional array of the row sums.\<close>

definition sum_axis1 :: "real ndarray \<Rightarrow> real list" where
  "sum_axis1 A = map (\<lambda>i. \<Sum>j<ncols A. cell A i j) [0..<nrows A]"

text \<open>\<^verbatim>\<open>A.dot(B)\<close>, the matrix product; the inner dimensions must agree.\<close>

definition matmul :: "real ndarray \<Rightarrow> real ndarray \<Rightarrow> real ndarray" where
  "matmul A B =
     \<lparr>nrows = nrows A, ncols = ncols B,
      cell = (\<lambda>i j. \<Sum>k<ncols A. cell A i k * cell B k j)\<rparr>"

definition dot :: "real ndarray \<Rightarrow> real ndarray \<Rightarrow> error + real ndarray" where
  "dot A B = (if ncols A \<noteq> nrows B then Inl ValueError else Inr (matmul A B))"

text \<open>\<^verbatim>\<open>A[i, j]\<close> on the result of a computation that may have raised; the indices are
  not negative.\<close>

definition entry :: "error + 'a ndarray \<Rightarrow> nat \<Rightarrow> nat \<Rightarrow> error + 'a" where
  "entry r i j =
     (case r of
        Inl e \<Rightarrow> Inl e
      | Inr A \<Rightarrow> if i < nrows A \<and> j < ncols A then Inr (cell A i j) else Inl IndexError)"

text \<open>Broadcasting of an elementwise operation: two dimensions fit when they are equal or
  one of them is 1, and a dimension of 1 is read at index 0 throughout.\<close>

definition bdim :: "nat \<Rightarrow> nat \<Rightarrow> nat option" where
  "bdim m n =
     (if m = n then Some m
      else if m = 1 then Some n
      else if n = 1 then Some m
      else None)"

definition bidx :: "nat \<Rightarrow> nat \<Rightarrow> nat" where
  "bidx n i = (if n = 1 then 0 else i)"

definition broadcast ::
  "('a \<Rightarrow> 'b \<Rightarrow> 'c) \<Rightarrow> 'a ndarray \<Rightarrow> 'b ndarray \<Rightarrow> error + 'c ndarray" where
  "broadcast f A B =
     (case bdim (nrows A) (nrows B) of
        None \<Rightarrow> Inl ValueError
      | Some r \<Rightarrow>
         (case bdim (ncols A) (ncols B) of
            None \<Rightarrow> Inl ValueError
          | Some c \<Rightarrow>
             Inr \<lparr>nrows = r, ncols = c,
                  cell = (\<lambda>i j. f (cell A (bidx (nrows A) i) (bidx (ncols A) j))
                                   (cell B (bidx (nrows B) i) (bidx (ncols B) j)))\<rparr>))"

subsection \<open>Sparse matrices\<close>

text \<open>A scipy sparse matrix keeps the cells it stores; every other cell of its shape
  reads as zero.\<close>

record spmatrix =
  sp_nrows :: nat
  sp_ncols :: nat
  stored :: "nat \<times> nat \<Rightarrow> real option"

definition sp_get :: "spmatrix \<Rightarrow> nat \<Rightarrow> nat \<Rightarrow> real" where
  "sp_get S i j = (case stored S (i, j) of None \<Rightarrow> 0 | Some v \<Rightarrow> v)"

text \<open>\<^verbatim>\<open>csr_matrix(A)\<close> stores the nonzero cells of a dense array.\<close>

definition csr_matrix :: "real ndarray \<Rightarrow> spmatrix" where
  "csr_matrix A =
     \<lparr>sp_nrows = nrows A, sp_ncols = ncols A,
      stored = (\<lambda>(i, j). if i < nrows A \<and> j < ncols A \<and> cell A i j \<noteq> 0
                          then Some (cell A i j) else None)\<rparr>"

text \<open>\<^verbatim>\<open>S.T\<close>\<close>

definition sp_T :: "spmatrix \<Rightarrow> spmatrix" where
  "sp_T S = \<lparr>sp_nrows = sp_ncols S, sp_ncols = sp_nrows S,
             stored = (\<lambda>(i, j). stored S (j, i))\<rparr>"

text \<open>\<^verbatim>\<open>S.todense()\<close>\<close>

definition todense :: "spmatrix \<Rightarrow> real ndarray" where
  "todense S = \<lparr>nrows = sp_nrows S, ncols = sp_ncols S, cell = sp_get S\<rparr>"

text \<open>\<^verbatim>\<open>S.mean(axis=1)\<close>: a matrix of one column holding the mean of each full row, the
  cells that are not stored counting as zeros. scipy multiplies by
  \<^verbatim>\<open>1.0 / S.shape[1]\<close>, which raises when there is no column.\<close>

definition sp_mean_axis1 :: "spmatrix \<Rightarrow> error + real ndarray" where
  "sp_mean_axis1 S =
     (if sp_ncols S = 0 then Inl ZeroDivisionError
      else Inr \<lparr>nrows = sp_nrows S, ncols = 1,
                cell = (\<lambda>i j. (\<Sum>k< sp_ncols S. sp_get S i k) / real (sp_ncols S))\<rparr>)"

subsection \<open>The prediction\<close>

text \<open>
  \<^verbatim>\<open>
  def predict(matrix, similarity, type='user'):
      if type == 'user':
          mean_user_rating = matrix.mean(axis=1)
          ratings_diff = (matrix - mean_user_rating)
          pred = mean_user_rating + similarity.dot(ratings_diff)
                   / np.array([np.abs(similarity).sum(axis=1)]).T
      elif type == 'item':
          pred = matrix.dot(similarity) / np.array([np.abs(similarity).sum(axis=1)])
      return pred
  \<close>
  \<open>matrix\<close> is sparse, users by items, and \<open>similarity\<close> is dense. With any other
  \<open>type\<close> the name \<open>pred\<close> is unbound at the \<^verbatim>\<open>return\<close>.
\<close>

definition to_float :: "real ndarray \<Rightarrow> npfloat ndarray" where
  "to_float A = \<lparr>nrows = nrows A, ncols = ncols A, cell = (\<lambda>i j. Fin (cell A i j))\<rparr>"

definition predict :: "spmatrix \<Rightarrow> real ndarray \<Rightarrow> string \<Rightarrow> error + npfloat ndarray" where
  "predict matrix similarity type =
     (if type = ''user'' then
        (case sp_mean_axis1 matrix of
           Inl e \<Rightarrow> Inl e
         | Inr mean_user_rating \<Rightarrow>
            (case broadcast (-) (todense matrix) mean_user_rating of
               Inl e \<Rightarrow> Inl e
             | Inr ratings_diff \<Rightarrow>
                (case dot similarity ratings_diff of
                   Inl e \<Rightarrow> Inl e
                 | Inr num \<Rightarrow>
                    (case broadcast np_true_divide num
                            (T (np_array [sum_axis1 (np_abs similarity)])) of
                       Inl e \<Rightarrow> Inl e
                     | Inr quot \<Rightarrow> broadcast np_add (to_float mean_user_rating) quot))))
      else if type = ''item'' then
        (case dot (todense matrix) similarity of
           Inl e \<Rightarrow> Inl e
         | Inr num \<Rightarrow>
            broadcast np_true_divide num (np_array [sum_axis1 (np_abs similarity)]))
      else Inl UnboundLocalError)"

subsection \<open>The interaction matrix\<close>

text \<open>
  A row of the merged frame \<open>df\<close>: the columns \<open>user\<close>, \<open>artist\<close> and \<open>plays\<close>. A
  missing value of a text column is \<open>None\<close>; \<open>plays\<close> is an int64 column.
\<close>

record interaction =
  user :: "string option"
  artist :: "string option"
  plays :: "64 word"

text \<open>
  \<^verbatim>\<open>df.groupby(['user','artist'], as_index=False).sum()\<close>: one row for each pair of
  keys, in the sorted order of the pairs, holding the sum of the plays of the group, an
  int64 sum that wraps around. A row with a missing key belongs to no group.
\<close>

definition group_key :: "interaction \<Rightarrow> (string \<times> string) option" where
  "group_key r =
     (case user r of
        None \<Rightarrow> None
      | Some u \<Rightarrow> (case artist r of None \<Rightarrow> None | Some a \<Rightarrow> Some (u, a)))"

definition groupby_sum :: "interaction list \<Rightarrow> ((string \<times> string) \<times> 64 word) list" where
  "groupby_sum df =
     map (\<lambda>k. (k, sum_list (map plays (filter (\<lambda>r. group_key r = Some k) df))))
       (sorted_list_of_set (set (List.map_filter group_key df)))"

text \<open>\<^verbatim>\<open>df[df['artist'].isin(top_artist)]\<close> on the grouped frame.\<close>

definition isin_artist ::
  "string list \<Rightarrow> ((string \<times> string) \<times> 64 word) list \<Rightarrow>
     ((string \<times> string) \<times> 64 word) list" where
  "isin_artist top_artist g = filter (\<lambda>((u, a), p). a \<in> set top_artist) g"

text \<open>A pandas frame with row labels \<open>index\<close>, column labels \<open>columns\<close> and the cells by
  position.\<close>

record 'a dataframe =
  index :: "string list"
  columns :: "string list"
  iloc :: "nat \<Rightarrow> nat \<Rightarrow> 'a"

text \<open>The float64 of an int64, the signed value of the word.\<close>

definition float64 :: "64 word \<Rightarrow> real" where
  "float64 w = real_of_int (sint w)"

text \<open>
  \<^verbatim>\<open>df.pivot(index='artist', columns='user', values='plays')\<close>: the labels are the
  sorted distinct artists and users, a cell without a row of \<open>df\<close> is missing (\<open>None\<close>),
  and two rows for one cell raise. The values are read as float64, which they are in
  pandas as soon as a cell is missing and become in every later computation otherwise.
\<close>

definition pivot :: "((string \<times> string) \<times> 64 word) list \<Rightarrow> error + real option dataframe" where
  "pivot g =
     (if \<not> distinct (map fst g) then Inl ValueError
      else
        let idx = sorted_list_of_set (set (map (snd \<circ> fst) g));
            cols = sorted_list_of_set (set (map (fst \<circ> fst) g))
        in Inr \<lparr>index = idx, columns = cols,
                 iloc = (\<lambda>i j. map_option float64 (map_of g (cols ! j, idx ! i)))\<rparr>)"

text \<open>\<^verbatim>\<open>.fillna(0)\<close>\<close>

definition fillna :: "real \<Rightarrow> real option dataframe \<Rightarrow> real dataframe" where
  "fillna c m =
     \<lparr>index = index m, columns = columns m,
      iloc = (\<lambda>i j. case iloc m i j of None \<Rightarrow> c | Some v \<Rightarrow> v)\<rparr>"

text \<open>The array of the values of a frame, as \<^verbatim>\<open>csr_matrix\<close> reads it.\<close>

definition df_values :: "'a dataframe \<Rightarrow> 'a ndarray" where
  "df_values m = \<lparr>nrows = length (index m), ncols = length (columns m), cell = iloc m\<rparr>"

text \<open>
  \<^verbatim>\<open>
  df = df.groupby(['user','artist'], as_index=False).sum()
  df = df[df['artist'].isin(top_artist)]
  matrix = df.pivot(index ='artist', columns='user', values='plays').fillna(0)
  matrix_sparse = csr_matrix(matrix)
  \<close>
\<close>

definition matrix :: "interaction list \<Rightarrow> string list \<Rightarrow> error + real dataframe" where
  "matrix df top_artist =
     (case pivot (isin_artist top_artist (groupby_sum df)) of
        Inl e \<Rightarrow> Inl e
      | Inr m \<Rightarrow> Inr (fillna 0 m))"

definition matrix_sparse :: "interaction list \<Rightarrow> string list \<Rightarrow> error + spmatrix" where
  "matrix_sparse df top_artist =
     (case matrix df top_artist of
        Inl e \<Rightarrow> Inl e
      | Inr m \<Rightarrow> Inr (csr_matrix (df_values m)))"

subsection \<open>Cosine distances\<close>

text \<open>
  \<^verbatim>\<open>pairwise_distances(X, metric='cosine')\<close> is scikit-learn's: the input needs a row
  and a column; every row is divided by its Euclidean norm, a row of norm zero staying as
  it is; the similarity is the product of the normalised matrix with its transpose; the
  distance is one minus the similarity, clipped to the interval from 0 to 2, and the
  diagonal of the distances of a matrix to itself is overwritten with 0.
  \<^verbatim>\<open>
  S = cosine_similarity(X, Y)
  S *= -1
  S += 1
  np.clip(S, 0, 2, out=S)
  if X is Y or Y is None:
      np.fill_diagonal(S, 0.0)
  \<close>
\<close>

definition row_norm :: "spmatrix \<Rightarrow> nat \<Rightarrow> real" where
  "row_norm X i = sqrt (\<Sum>k< sp_ncols X. (sp_get X i k)\<^sup>2)"

definition normalize_l2 :: "spmatrix \<Rightarrow> spmatrix" where
  "normalize_l2 X =
     \<lparr>sp_nrows = sp_nrows X, sp_ncols = sp_ncols X,
      stored = (\<lambda>(i, j). case stored X (i, j) of
                            None \<Rightarrow> None
                          | Some v \<Rightarrow> if row_norm X i = 0 then Some v
                                      else Some (v / row_norm X i))\<rparr>"

definition cosine_similarity :: "spmatrix \<Rightarrow> real ndarray" where
  "cosine_similarity X =
     (let X_normalized = todense (normalize_l2 X) in matmul X_normalized (T X_normalized))"

definition np_clip :: "real \<Rightarrow> real \<Rightarrow> real \<Rightarrow> real" where
  "np_clip x lo hi = min hi (max lo x)"

definition cosine_distances :: "spmatrix \<Rightarrow> real ndarray" where
  "cosine_distances X =
     (let S = cosine_similarity X
      in \<lparr>nrows = nrows S, ncols = ncols S,
          cell = (\<lambda>i j. if i = j then 0 else np_clip (- cell S i j + 1) 0 2)\<rparr>)"

definition pairwise_distances :: "spmatrix \<Rightarrow> error + real ndarray" where
  "pairwise_distances X =
     (if sp_nrows X = 0 \<or> sp_ncols X = 0 then Inl ValueError
      else Inr (cosine_distances X))"

text \<open>
  \<^verbatim>\<open>
  item_similarity = pairwise_distances(matrix_sparse, metric='cosine')
  user_similarity = pairwise_distances(matrix_sparse.T, metric='cosine')
  item_prediction = predict(matrix_sparse.T, item_similarity, type='item')
  user_prediction = predict(matrix_sparse.T, user_similarity, type='user')
  \<close>
\<close>

definition item_similarity :: "interaction list \<Rightarrow> string list \<Rightarrow> error + real ndarray" where
  "item_similarity df top_artist =
     (case matrix_sparse df top_artist of
        Inl e \<Rightarrow> Inl e
      | Inr ms \<Rightarrow> pairwise_distances ms)"

definition user_similarity :: "interaction list \<Rightarrow> string list \<Rightarrow> error + real ndarray" where
  "user_similarity df top_artist =
     (case matrix_sparse df top_artist of
        Inl e \<Rightarrow> Inl e
      | Inr ms \<Rightarrow> pairwise_distances (sp_T ms))"

definition item_prediction :: "interaction list \<Rightarrow> string list \<Rightarrow> error + npfloat ndarray" where
  "item_prediction df top_artist =
     (case matrix_sparse df top_artist of
        Inl e \<Rightarrow> Inl e
      | Inr ms \<Rightarrow>
         (case pairwise_distances ms of
            Inl e \<Rightarrow> Inl e
          | Inr sim \<Rightarrow> predict (sp_T ms) sim ''item''))"

definition user_prediction :: "interaction list \<Rightarrow> string list \<Rightarrow> error + npfloat ndarray" where
  "user_prediction df top_artist =
     (case matrix_sparse df top_artist of
        Inl e \<Rightarrow> Inl e
      | Inr ms \<Rightarrow>
         (case pairwise_distances (sp_T ms) of
            Inl e \<Rightarrow> Inl e
          | Inr sim \<Rightarrow> predict (sp_T ms) sim ''user''))"

subsection \<open>Reading a frame by labels\<close>

text \<open>\<^verbatim>\<open>matrix.index.get_loc(label)\<close>, the position of a label, and
  \<^verbatim>\<open>matrix.loc[a][u]\<close>, the cell of two labels; a label that is absent raises.\<close>

fun get_loc :: "'a list \<Rightarrow> 'a \<Rightarrow> nat option" where
  "get_loc [] x = None"
| "get_loc (y # ys) x = (if x = y then Some 0 else map_option Suc (get_loc ys x))"

definition loc :: "error + 'a dataframe \<Rightarrow> string \<Rightarrow> string \<Rightarrow> error + 'a" where
  "loc r a u =
     (case r of
        Inl e \<Rightarrow> Inl e
      | Inr m \<Rightarrow>
         (case get_loc (index m) a of
            None \<Rightarrow> Inl KeyError
          | Some i \<Rightarrow>
             (case get_loc (columns m) u of
                None \<Rightarrow> Inl KeyError
              | Some j \<Rightarrow> Inr (iloc m i j))))"

subsection \<open>The recommender\<close>

text \<open>
  Modelled from the spec: the notebook stops at the prediction matrices and has no
  function \<open>recommend\<close>. Section 4.4 of the specification describes it:
  \<open>recommend(user, N)\<close> reads the row of the user from the prediction matrix, leaves
  out, when the exclusion is switched on, the items the user has a nonzero interaction
  with, sorts the remaining items by descending predicted score, ties by ascending item
  identifier, and returns at most \<open>N\<close> pairs of an item identifier and its score.
  \<open>items\<close> maps the column of an item to its identifier, \<open>P\<close> holds the predicted
  scores and \<open>W\<close> the interaction weights, both users by items.
\<close>

definition eligible :: "spmatrix \<Rightarrow> string list \<Rightarrow> bool \<Rightarrow> nat \<Rightarrow> nat list" where
  "eligible W items exclude_seen u =
     filter (\<lambda>j. \<not> exclude_seen \<or> sp_get W u j = 0) [0..<length items]"

definition recommend ::
  "real ndarray \<Rightarrow> spmatrix \<Rightarrow> string list \<Rightarrow> bool \<Rightarrow> nat \<Rightarrow> nat \<Rightarrow> (string \<times> real) list" where
  "recommend P W items exclude_seen u N =
     take N (sort_key (\<lambda>(a, s). (- s, a))
       (map (\<lambda>j. (items ! j, cell P u j)) (eligible W items exclude_seen u)))"

subsection \<open>Notions of the specification\<close>

text \<open>The mean of the full row of user \<open>u\<close>, the cells that are not stored counting as
  zeros.\<close>

definition meanU :: "spmatrix \<Rightarrow> nat \<Rightarrow> real" where
  "meanU M u = (\<Sum>k< sp_ncols M. sp_get M u k) / real (sp_ncols M)"

text \<open>The total of the weights that the input rows give to a user and an item, as an
  integer, and the int64 sum of the same weights.\<close>

definition total_plays :: "interaction list \<Rightarrow> string \<Rightarrow> string \<Rightarrow> int" where
  "total_plays df u a =
     sum_list (map (\<lambda>r. sint (plays r))
       (filter (\<lambda>r. user r = Some u \<and> artist r = Some a) df))"

definition group_sum :: "interaction list \<Rightarrow> string \<Rightarrow> string \<Rightarrow> 64 word" where
  "group_sum df u a =
     sum_list (map plays (filter (\<lambda>r. user r = Some u \<and> artist r = Some a) df))"

text \<open>The pairs of a user and an item that occur in the input, and the items and users
  that remain once the items are restricted to \<open>top_artist\<close>.\<close>

definition group_keys :: "interaction list \<Rightarrow> (string \<times> string) set" where
  "group_keys df = set (List.map_filter group_key df)"

definition item_labels :: "interaction list \<Rightarrow> string list \<Rightarrow> string set" where
  "item_labels df ta = snd ` Set.filter (\<lambda>k. snd k \<in> set ta) (group_keys df)"

definition user_labels :: "interaction list \<Rightarrow> string list \<Rightarrow> string set" where
  "user_labels df ta = fst ` Set.filter (\<lambda>k. snd k \<in> set ta) (group_keys df)"

text \<open>The frame that \<open>matrix\<close> returns, in closed form.\<close>

definition matrix_frame :: "interaction list \<Rightarrow> string list \<Rightarrow> real dataframe" where
  "matrix_frame df ta =
     \<lparr>index = sorted_list_of_set (item_labels df ta),
      columns = sorted_list_of_set (user_labels df ta),
      iloc = (\<lambda>i j.
         let u = sorted_list_of_set (user_labels df ta) ! j;
             a = sorted_list_of_set (item_labels df ta) ! i
         in if (u, a) \<in> group_keys df \<and> a \<in> set ta then float64 (group_sum df u a)
            else 0)\<rparr>"

subsection \<open>Example data\<close>

text \<open>Two users and two items: the first user played the first item only.\<close>

definition example_weights :: spmatrix where
  "example_weights = csr_matrix (np_array [[5, 0], [5, 5]])"

definition example_similarity :: "real ndarray" where
  "example_similarity = np_array [[0, 1 / 2], [1 / 2, 0]]"

text \<open>An entity without any play beside one with plays.\<close>

definition example_silent :: spmatrix where
  "example_silent = csr_matrix (np_array [[0, 0], [3, 4]])"

text \<open>A single play.\<close>

definition example_one_play :: "interaction list" where
  "example_one_play = [\<lparr>user = Some ''u1'', artist = Some ''a'', plays = 1\<rparr>]"

text \<open>Two rows of one pair whose weights are \<open>2 ^ 62\<close> each, and two rows of one pair
  whose weights are \<open>2 ^ 63 - 1\<close> and 1.\<close>

definition example_large :: "interaction list" where
  "example_large =
     [\<lparr>user = Some ''u1'', artist = Some ''a'', plays = 4611686018427387904\<rparr>,
      \<lparr>user = Some ''u1'', artist = Some ''a'', plays = 4611686018427387904\<rparr>]"

definition example_full :: "interaction list" where
  "example_full =
     [\<lparr>user = Some ''u1'', artist = Some ''a'', plays = 9223372036854775807\<rparr>,
      \<lparr>user = Some ''u1'', artist = Some ''a'', plays = 1\<rparr>]"

text \<open>Two users and two artists, one pair occurring twice and one row without a user.\<close>

definition example_plays :: "interaction list" where
  "example_plays =
     [\<lparr>user = Some ''u1'', artist = Some ''a'', plays = 5\<rparr>,
      \<lparr>user = Some ''u2'', artist = Some ''a'', plays = 5\<rparr>,
      \<lparr>user = Some ''u2'', artist = Some ''b'', plays = 3\<rparr>,
      \<lparr>user = None, artist = Some ''b'', plays = 7\<rparr>,
      \<lparr>user = Some ''u2'', artist = Some ''b'', plays = 2\<rparr>]"

text \<open>The scenario of section 8 of the specification: item vectors \<open>a = [5, 5]\<close> and
  \<open>b = [0, 5]\<close>.\<close>

definition example_scenario :: "interaction list" where
  "example_scenario =
     [\<lparr>user = Some ''u1'', artist = Some ''a'', plays = 5\<rparr>,
      \<lparr>user = Some ''u2'', artist = Some ''a'', plays = 5\<rparr>,
      \<lparr>user = Some ''u2'', artist = Some ''b'', plays = 5\<rparr>]"

text \<open>Scores of one user for four items, the last of which the user has played.\<close>

definition example_scores :: "real ndarray" where
  "example_scores = np_array [[1, 3, 3, 2]]"

definition example_seen :: spmatrix where
  "example_seen = csr_matrix (np_array [[0, 0, 0, 5]])"

definition example_items :: "string list" where
  "example_items = [''a'', ''c'', ''b'', ''d'']"

section \<open>Properties of the prediction\<close>

lemma bidx_lt: "i < n \<Longrightarrow> bidx n i = i"
  by (auto simp: bidx_def)

lemma bidx_one: "bidx (Suc 0) i = 0"
  by (simp add: bidx_def)

lemma sum_axis1_nth: "i < nrows A \<Longrightarrow> sum_axis1 A ! i = (\<Sum>j<ncols A. cell A i j)"
  by (simp add: sum_axis1_def)

lemma length_sum_axis1: "length (sum_axis1 A) = nrows A"
  by (simp add: sum_axis1_def)

text \<open>What the two branches compute in one cell, the divisions as numpy does them.\<close>

lemma predict_item_cell:
  assumes "nrows S = sp_ncols M" "ncols S = sp_ncols M" "u < sp_nrows M" "i < sp_ncols M"
  shows "entry (predict M S ''item'') u i =
           Inr (np_true_divide (\<Sum>k< sp_ncols M. sp_get M u k * cell S k i)
                               (\<Sum>j< sp_ncols M. \<bar>cell S i j\<bar>))"
  using assms
  by (auto simp: predict_def dot_def matmul_def todense_def broadcast_def bdim_def np_array_def
      entry_def length_sum_axis1 sum_axis1_nth np_abs_def bidx_lt bidx_one)

lemma predict_user_cell:
  assumes "nrows S = sp_nrows M" "ncols S = sp_nrows M" "u < sp_nrows M" "i < sp_ncols M"
  shows "entry (predict M S ''user'') u i =
           Inr (np_add (Fin (meanU M u))
                  (np_true_divide (\<Sum>v< sp_nrows M. cell S u v * (sp_get M v i - meanU M v))
                                  (\<Sum>v< sp_nrows M. \<bar>cell S u v\<bar>)))"
  using assms
  by (auto simp: predict_def dot_def matmul_def todense_def broadcast_def bdim_def np_array_def
      T_def entry_def length_sum_axis1 sum_axis1_nth np_abs_def bidx_lt sp_mean_axis1_def
      to_float_def bidx_one meanU_def)

lemma abs_sum_zero:
  fixes f :: "nat \<Rightarrow> real"
  assumes "(\<Sum>j<n. \<bar>f j\<bar>) = 0" "j < n"
  shows "f j = 0"
proof -
  have "\<forall>k\<in>{..<n}. \<bar>f k\<bar> = 0"
    using assms(1) by (subst (asm) sum_nonneg_eq_0_iff) auto
  with assms(2) show ?thesis by auto
qed

lemma np_true_divide_NaN: "np_true_divide x y = NaN \<longleftrightarrow> y = 0 \<and> x = 0"
  by (simp add: np_true_divide_def)

lemma np_add_Fin_NaN: "np_add (Fin a) x = NaN \<longleftrightarrow> x = NaN"
  by (cases x) simp_all

lemma example_shape:
  "sp_nrows example_weights = 2" "sp_ncols example_weights = 2"
  "nrows example_similarity = 2" "ncols example_similarity = 2"
  by (simp_all add: example_weights_def example_similarity_def csr_matrix_def np_array_def)

text \<open>
  C1 (the zero-sum fallback fails). The claim gives the item-based prediction the value 0
  where the absolute sum of the similarity row is zero. \<^verbatim>\<open>predict\<close> has no such case:
  with one user, one item and the similarity matrix \<open>[[0]]\<close> the cell is \<open>0 / 0\<close>,
  which numpy evaluates to \<open>nan\<close>.
\<close>

theorem predict_item_zero_sum_counterexample:
  "entry (predict (csr_matrix (np_array [[5]])) (np_array [[0]]) ''item'') 0 0 = Inr NaN \<and>
   entry (predict (csr_matrix (np_array [[5]])) (np_array [[0]]) ''item'') 0 0 \<noteq> Inr (Fin 0)"
  by code_simp

text \<open>
  C1 (as amended). For a user \<open>u\<close>, an item \<open>i\<close> and a square similarity matrix over the
  items that is symmetric at \<open>i\<close>, the item-based prediction is the sum over all items
  \<open>j\<close> of \<open>sim(i,j) * weight[u,j]\<close> divided by the sum of the \<open>|sim(i,j)|\<close> whenever that
  divisor is not zero; where the divisor is zero there is no fallback and the cell is
  \<open>nan\<close>.
\<close>

theorem predict_item_formula:
  assumes "nrows S = sp_ncols M" and "ncols S = sp_ncols M"
    and "\<forall>j< sp_ncols M. cell S j i = cell S i j"
    and "u < sp_nrows M" and "i < sp_ncols M"
  shows "entry (predict M S ''item'') u i =
           Inr (if (\<Sum>j< sp_ncols M. \<bar>cell S i j\<bar>) = 0 then NaN
                else Fin ((\<Sum>j< sp_ncols M. cell S i j * sp_get M u j) /
                          (\<Sum>j< sp_ncols M. \<bar>cell S i j\<bar>)))"
proof -
  have num: "(\<Sum>k< sp_ncols M. sp_get M u k * cell S k i) =
             (\<Sum>j< sp_ncols M. cell S i j * sp_get M u j)"
    using assms(3) by (intro sum.cong) (auto simp: mult.commute)
  show ?thesis
  proof (cases "(\<Sum>j< sp_ncols M. \<bar>cell S i j\<bar>) = 0")
    case True
    then have "\<forall>j< sp_ncols M. cell S i j = 0"
      using abs_sum_zero [where n = "sp_ncols M" and f = "cell S i"] by blast
    then have "(\<Sum>j< sp_ncols M. cell S i j * sp_get M u j) = 0"
      by (intro sum.neutral) auto
    with True num show ?thesis
      using predict_item_cell [OF assms(1,2,4,5)] by (simp add: np_true_divide_def)
  next
    case False
    with num show ?thesis
      using predict_item_cell [OF assms(1,2,4,5)] by (simp add: np_true_divide_def)
  qed
qed

theorem predict_item_formula_witness:
  "nrows example_similarity = sp_ncols example_weights \<and>
   ncols example_similarity = sp_ncols example_weights \<and>
   cell example_similarity 1 0 = cell example_similarity 0 1 \<and>
   1 < sp_nrows example_weights \<and> 0 < sp_ncols example_weights \<and>
   entry (predict example_weights example_similarity ''item'') 1 0 = Inr (Fin 5)"
proof -
  have sym: "\<forall>j< sp_ncols example_weights.
               cell example_similarity j 0 = cell example_similarity 0 j"
    by (simp add: example_shape example_similarity_def np_array_def numeral_2_eq_2 less_Suc_eq)
  have "entry (predict example_weights example_similarity ''item'') 1 0 =
          Inr (if (\<Sum>j< sp_ncols example_weights. \<bar>cell example_similarity 0 j\<bar>) = 0 then NaN
               else Fin ((\<Sum>j< sp_ncols example_weights.
                            cell example_similarity 0 j * sp_get example_weights 1 j) /
                         (\<Sum>j< sp_ncols example_weights. \<bar>cell example_similarity 0 j\<bar>)))"
    using sym by (intro predict_item_formula) (simp_all add: example_shape)
  also have "\<dots> = Inr (Fin 5)"
    unfolding example_weights_def example_similarity_def by code_simp
  finally show ?thesis
    by (simp add: example_shape example_similarity_def np_array_def)
qed

text \<open>
  C2 (the zero-sum fallback fails). The claim gives the user-based prediction the value
  \<open>meanU[u]\<close> where the divisor is zero. With one user who played one item 5 times and the
  similarity matrix \<open>[[0]]\<close> the mean is 5 and the cell is \<open>5 + 0 / 0\<close>, which is
  \<open>nan\<close>.
\<close>

theorem predict_user_zero_sum_counterexample:
  "meanU (csr_matrix (np_array [[5]])) 0 = 5 \<and>
   entry (predict (csr_matrix (np_array [[5]])) (np_array [[0]]) ''user'') 0 0 = Inr NaN \<and>
   entry (predict (csr_matrix (np_array [[5]])) (np_array [[0]]) ''user'') 0 0 \<noteq> Inr (Fin 5)"
  by code_simp

text \<open>
  C2 (as amended). For a user \<open>u\<close>, an item \<open>i\<close> and a square similarity matrix over the
  users, the user-based prediction is \<open>meanU[u]\<close> plus the sum over all users \<open>v\<close> of
  \<open>sim(u,v) * (weight[v,i] - meanU[v])\<close> divided by the sum of the \<open>|sim(u,v)|\<close> whenever
  that divisor is not zero, \<open>meanU\<close> being the mean of the full dense row; where the
  divisor is zero there is no fallback and the cell is \<open>nan\<close>.
\<close>

theorem predict_user_formula:
  assumes "nrows S = sp_nrows M" and "ncols S = sp_nrows M"
    and "u < sp_nrows M" and "i < sp_ncols M"
  shows "entry (predict M S ''user'') u i =
           Inr (if (\<Sum>v< sp_nrows M. \<bar>cell S u v\<bar>) = 0 then NaN
                else Fin (meanU M u +
                          (\<Sum>v< sp_nrows M. cell S u v * (sp_get M v i - meanU M v)) /
                          (\<Sum>v< sp_nrows M. \<bar>cell S u v\<bar>)))"
proof (cases "(\<Sum>v< sp_nrows M. \<bar>cell S u v\<bar>) = 0")
  case True
  then have "\<forall>v< sp_nrows M. cell S u v = 0"
    using abs_sum_zero [where n = "sp_nrows M" and f = "cell S u"] by blast
  then have "(\<Sum>v< sp_nrows M. cell S u v * (sp_get M v i - meanU M v)) = 0"
    by (intro sum.neutral) auto
  with True show ?thesis
    using predict_user_cell [OF assms] by (simp add: np_true_divide_def)
next
  case False
  then show ?thesis
    using predict_user_cell [OF assms] by (simp add: np_true_divide_def)
qed

theorem predict_user_formula_witness:
  "nrows example_similarity = sp_nrows example_weights \<and>
   ncols example_similarity = sp_nrows example_weights \<and>
   1 < sp_nrows example_weights \<and> 0 < sp_ncols example_weights \<and>
   entry (predict example_weights example_similarity ''user'') 1 0 = Inr (Fin (15 / 2))"
proof -
  have "entry (predict example_weights example_similarity ''user'') 1 0 =
          Inr (if (\<Sum>v< sp_nrows example_weights. \<bar>cell example_similarity 1 v\<bar>) = 0 then NaN
               else Fin (meanU example_weights 1 +
                         (\<Sum>v< sp_nrows example_weights.
                            cell example_similarity 1 v *
                            (sp_get example_weights v 0 - meanU example_weights v)) /
                         (\<Sum>v< sp_nrows example_weights. \<bar>cell example_similarity 1 v\<bar>)))"
    by (intro predict_user_formula) (simp_all add: example_shape)
  also have "\<dots> = Inr (Fin (15 / 2))"
    unfolding example_weights_def example_similarity_def by code_simp
  finally show ?thesis
    by (simp add: example_shape)
qed

text \<open>
  C8 (an unguarded division by zero occurs). The claim excludes \<open>nan\<close> from both
  prediction matrices. A frame with a single play gives the distance matrix \<open>[[0]]\<close> for
  the items and for the users, \<^verbatim>\<open>predict\<close> divides by its row sum, and the only cell of
  each prediction matrix is \<open>nan\<close>.
\<close>

theorem prediction_nan_counterexample:
  "entry (item_prediction example_one_play [''a'']) 0 0 = Inr NaN \<and>
   entry (user_prediction example_one_play [''a'']) 0 0 = Inr NaN"
  unfolding example_one_play_def
  by (simp add: item_prediction_def user_prediction_def matrix_sparse_def matrix_def pivot_def
      isin_artist_def groupby_sum_def List.map_filter_def group_key_def fillna_def
      df_values_def csr_matrix_def pairwise_distances_def cosine_distances_def
      cosine_similarity_def matmul_def T_def todense_def normalize_l2_def row_norm_def
      sp_get_def sp_mean_axis1_def to_float_def predict_def dot_def sp_T_def broadcast_def
      bdim_def bidx_def np_array_def sum_axis1_def np_abs_def np_true_divide_def entry_def
      Let_def)

text \<open>
  C8 (as amended). No division of \<^verbatim>\<open>predict\<close> is guarded, and a cell of the prediction
  is \<open>nan\<close> exactly when its division is \<open>0 / 0\<close>: in the item-based mode when the
  absolute sum of the similarity row of the item and the numerator are both zero, in the
  user-based mode when the absolute sum of the similarity row of the user is zero. So no
  cell is \<open>nan\<close> where the absolute sum of its similarity row is not zero.
\<close>

theorem predict_nan_iff:
  assumes "nrows Si = sp_ncols M" and "ncols Si = sp_ncols M"
    and "nrows Su = sp_nrows M" and "ncols Su = sp_nrows M"
    and "u < sp_nrows M" and "i < sp_ncols M"
  shows "(entry (predict M Si ''item'') u i = Inr NaN \<longleftrightarrow>
            (\<Sum>j< sp_ncols M. \<bar>cell Si i j\<bar>) = 0 \<and>
            (\<Sum>j< sp_ncols M. sp_get M u j * cell Si j i) = 0) \<and>
         (entry (predict M Su ''user'') u i = Inr NaN \<longleftrightarrow>
            (\<Sum>v< sp_nrows M. \<bar>cell Su u v\<bar>) = 0)"
proof -
  have "(\<Sum>v< sp_nrows M. cell Su u v * (sp_get M v i - meanU M v)) = 0"
    if "(\<Sum>v< sp_nrows M. \<bar>cell Su u v\<bar>) = 0"
  proof -
    have "\<forall>v< sp_nrows M. cell Su u v = 0"
      using that abs_sum_zero [where n = "sp_nrows M" and f = "cell Su u"] by blast
    then show ?thesis by (intro sum.neutral) auto
  qed
  then show ?thesis
    using predict_item_cell [OF assms(1,2,5,6)] predict_user_cell [OF assms(3,4,5,6)]
    by (auto simp: np_true_divide_NaN np_add_Fin_NaN)
qed

theorem predict_nan_iff_witness:
  "(\<Sum>j< sp_ncols example_weights. \<bar>cell example_similarity 0 j\<bar>) \<noteq> 0 \<and>
   (\<Sum>v< sp_nrows example_weights. \<bar>cell example_similarity 1 v\<bar>) \<noteq> 0 \<and>
   entry (predict example_weights example_similarity ''item'') 1 0 \<noteq> Inr NaN \<and>
   entry (predict example_weights example_similarity ''user'') 1 0 \<noteq> Inr NaN"
proof -
  have a: "(\<Sum>j< sp_ncols example_weights. \<bar>cell example_similarity 0 j\<bar>) \<noteq> 0"
    unfolding example_weights_def example_similarity_def by code_simp
  have b: "(\<Sum>v< sp_nrows example_weights. \<bar>cell example_similarity 1 v\<bar>) \<noteq> 0"
    unfolding example_weights_def example_similarity_def by code_simp
  have "nrows example_similarity = sp_ncols example_weights"
    "ncols example_similarity = sp_ncols example_weights"
    "nrows example_similarity = sp_nrows example_weights"
    "ncols example_similarity = sp_nrows example_weights"
    "1 < sp_nrows example_weights" "0 < sp_ncols example_weights"
    by (simp_all add: example_shape)
  from predict_nan_iff [OF this] a b show ?thesis
    by simp
qed

section \<open>Properties of the cosine distances\<close>

lemma row_norm_zero_iff: "row_norm X i = 0 \<longleftrightarrow> (\<forall>k < sp_ncols X. sp_get X i k = 0)"
proof -
  have "(\<Sum>k < sp_ncols X. (sp_get X i k)\<^sup>2) = 0 \<longleftrightarrow>
        (\<forall>k\<in>{..< sp_ncols X}. (sp_get X i k)\<^sup>2 = 0)"
    by (rule sum_nonneg_eq_0_iff) auto
  then show ?thesis by (auto simp: row_norm_def)
qed

lemma sp_get_normalize_l2:
  "sp_get (normalize_l2 X) i k =
     (if row_norm X i = 0 then sp_get X i k else sp_get X i k / row_norm X i)"
  by (simp add: sp_get_def normalize_l2_def split: option.splits)

lemma cell_cosine_distances:
  "cell (cosine_distances X) i j =
     (if i = j then 0
      else np_clip
        (1 - (\<Sum>k < sp_ncols X. sp_get (normalize_l2 X) i k * sp_get (normalize_l2 X) j k)) 0 2)"
  by (simp add: cosine_distances_def cosine_similarity_def matmul_def T_def todense_def
      normalize_l2_def Let_def)

lemma entry_pairwise_distances:
  assumes "i < sp_nrows X" "j < sp_nrows X" "0 < sp_ncols X"
  shows "entry (pairwise_distances X) i j = Inr (cell (cosine_distances X) i j)"
  using assms
  by (simp add: entry_def pairwise_distances_def cosine_distances_def cosine_similarity_def
      matmul_def T_def todense_def normalize_l2_def Let_def)

lemma zero_row_normalized:
  assumes "row_norm X i = 0"
  shows "(\<Sum>k < sp_ncols X. sp_get (normalize_l2 X) i k * sp_get (normalize_l2 X) j k) = 0"
    and "(\<Sum>k < sp_ncols X. sp_get (normalize_l2 X) j k * sp_get (normalize_l2 X) i k) = 0"
proof -
  have "\<forall>k < sp_ncols X. sp_get (normalize_l2 X) i k = 0"
    using assms by (simp add: sp_get_normalize_l2 row_norm_zero_iff)
  then show
    "(\<Sum>k < sp_ncols X. sp_get (normalize_l2 X) i k * sp_get (normalize_l2 X) j k) = 0"
    "(\<Sum>k < sp_ncols X. sp_get (normalize_l2 X) j k * sp_get (normalize_l2 X) i k) = 0"
    by (auto intro!: sum.neutral)
qed

text \<open>The distance matrix is square over the rows of its input and symmetric, which is
  what the item-based formula of the prediction asks of its similarity matrix.\<close>

lemma pairwise_distances_square_symmetric:
  assumes "pairwise_distances X = Inr S"
  shows "nrows S = sp_nrows X" and "ncols S = sp_nrows X" and "cell S i j = cell S j i"
proof -
  have S: "S = cosine_distances X"
    using assms by (simp add: pairwise_distances_def split: if_splits)
  show "nrows S = sp_nrows X" "ncols S = sp_nrows X"
    by (simp_all add: S cosine_distances_def cosine_similarity_def matmul_def T_def
        todense_def normalize_l2_def Let_def)
  show "cell S i j = cell S j i"
    by (simp add: S cell_cosine_distances mult.commute)
qed

text \<open>The scenario of the specification: the distance of \<open>a = [5, 5]\<close> and \<open>b = [0, 5]\<close>
  is \<open>1 - 25 / (sqrt 50 * 5)\<close>, about 0.2929.\<close>

lemma scenario_matrix_sparse:
  "matrix_sparse example_scenario [''a'', ''b''] = Inr (csr_matrix (np_array [[5, 5], [0, 5]]))"
  unfolding example_scenario_def
  apply (simp add: matrix_sparse_def matrix_def pivot_def isin_artist_def groupby_sum_def
      List.map_filter_def group_key_def fillna_def Let_def sorted_list_of_set_sort_remdups
      df_values_def csr_matrix_def np_array_def fun_eq_iff less_Suc_eq numeral_2_eq_2
      float64_def)
  apply (auto simp: less_Suc_eq nth_Cons')
  done

lemma scenario_distance:
  "entry (item_similarity example_scenario [''a'', ''b'']) 0 1 = Inr (1 - 5 / sqrt 50)"
proof -
  have "(5::real) \<le> sqrt 50"
    by (rule real_le_rsqrt) simp
  then have "5 / sqrt 50 \<le> 1"
    by simp
  moreover have "0 < 5 / sqrt 50"
    by simp
  ultimately have "np_clip (1 - 5 / sqrt 50) 0 2 = 1 - 5 / sqrt 50"
    unfolding np_clip_def by linarith
  then show ?thesis
    unfolding item_similarity_def scenario_matrix_sparse
    by (simp add: pairwise_distances_def cosine_distances_def cosine_similarity_def matmul_def
        T_def todense_def normalize_l2_def row_norm_def sp_get_def entry_def Let_def
        csr_matrix_def np_array_def lessThan_Suc numeral_2_eq_2)
qed

lemma example_silent_shape: "sp_nrows example_silent = 2" "sp_ncols example_silent = 2"
  by (simp_all add: example_silent_def csr_matrix_def np_array_def)

lemma example_silent_norm: "row_norm example_silent 0 = 0" "row_norm example_silent 1 \<noteq> 0"
  by (simp_all add: row_norm_def example_silent_def csr_matrix_def np_array_def sp_get_def
      lessThan_Suc numeral_2_eq_2)

text \<open>
  C3. For a pair of two entities \<open>i\<close> and \<open>j\<close> (rows of the matrix handed to
  \<^verbatim>\<open>pairwise_distances\<close>: items of \<open>matrix_sparse\<close>, users of its transpose), if the
  vector of either has norm zero, which is the case exactly for a row of zeros, the
  computed cosine distance is a number and equals 1: an entity without any interaction
  has the distance 1 to every other entity.
\<close>

theorem zero_norm_distance_one:
  assumes "i < sp_nrows X" and "j < sp_nrows X" and "i \<noteq> j" and "0 < sp_ncols X"
    and "row_norm X i = 0 \<or> row_norm X j = 0"
  shows "entry (pairwise_distances X) i j = Inr 1 \<and>
         (row_norm X i = 0 \<longleftrightarrow> (\<forall>k < sp_ncols X. sp_get X i k = 0))"
proof -
  have "(\<Sum>k < sp_ncols X. sp_get (normalize_l2 X) i k * sp_get (normalize_l2 X) j k) = 0"
    using assms(5) zero_row_normalized [of X i j] zero_row_normalized [of X j i] by blast
  then show ?thesis
    using entry_pairwise_distances [OF assms(1,2,4)] row_norm_zero_iff [of X i] assms(3)
    by (simp add: cell_cosine_distances np_clip_def)
qed

theorem zero_norm_distance_one_witness:
  "row_norm example_silent 0 = 0 \<and> entry (pairwise_distances example_silent) 0 1 = Inr 1"
proof -
  have "0 < sp_nrows example_silent" "1 < sp_nrows example_silent" "(0::nat) \<noteq> 1"
    "0 < sp_ncols example_silent"
    "row_norm example_silent 0 = 0 \<or> row_norm example_silent 1 = 0"
    by (simp_all add: example_silent_shape example_silent_norm)
  from zero_norm_distance_one [OF this] example_silent_norm show ?thesis
    by simp
qed

text \<open>
  C4. The matrix of pairwise cosine distances, over the items and over the users, is
  symmetric: the distance of \<open>i\<close> and \<open>j\<close> equals the distance of \<open>j\<close> and \<open>i\<close>. Every
  diagonal entry is 0, also that of an entity whose vector has norm zero.
\<close>

theorem distances_symmetric_diagonal:
  assumes "i < sp_nrows X" and "j < sp_nrows X" and "0 < sp_ncols X"
  shows "entry (pairwise_distances X) i j = entry (pairwise_distances X) j i \<and>
         entry (pairwise_distances X) i i = Inr 0"
proof -
  have sym: "cell (cosine_distances X) i j = cell (cosine_distances X) j i"
    by (simp add: cell_cosine_distances mult.commute)
  have diag: "cell (cosine_distances X) i i = 0"
    by (simp add: cell_cosine_distances)
  show ?thesis
    using entry_pairwise_distances [OF assms(1,2,3)] entry_pairwise_distances [OF assms(2,1,3)]
      entry_pairwise_distances [OF assms(1,1,3)] sym diag
    by simp
qed

theorem distances_symmetric_diagonal_witness:
  "entry (pairwise_distances example_silent) 1 0 = entry (pairwise_distances example_silent) 0 1 \<and>
   entry (pairwise_distances example_silent) 1 1 = Inr 0 \<and>
   entry (pairwise_distances example_silent) 0 0 = Inr 0"
proof -
  have "1 < sp_nrows example_silent" "0 < sp_nrows example_silent"
    "0 < sp_ncols example_silent"
    by (simp_all add: example_silent_shape)
  from distances_symmetric_diagonal [OF this] distances_symmetric_diagonal [OF this(2,1,3)]
  show ?thesis
    by simp
qed

section \<open>Properties of the interaction matrix\<close>

lemma get_loc_Some: "x \<in> set xs \<Longrightarrow> \<exists>i. get_loc xs x = Some i \<and> i < length xs \<and> xs ! i = x"
  by (induction xs) auto

lemma group_key_Some: "group_key r = Some (u, a) \<longleftrightarrow> user r = Some u \<and> artist r = Some a"
  by (auto simp: group_key_def split: option.splits)

lemma group_keys_eq: "group_keys df = {k. \<exists>r\<in>set df. group_key r = Some k}"
  by (force simp: group_keys_def List.map_filter_def image_iff)

lemma item_labels_eq: "item_labels df ta = {a \<in> set ta. \<exists>u. (u, a) \<in> group_keys df}"
  by (force simp: item_labels_def image_iff)

lemma user_labels_eq: "user_labels df ta = {u. \<exists>a\<in>set ta. (u, a) \<in> group_keys df}"
  by (force simp: user_labels_def image_iff)

lemma finite_group_keys: "finite (group_keys df)"
  by (simp add: group_keys_def)

lemma finite_item_labels: "finite (item_labels df ta)"
  by (simp add: item_labels_def finite_group_keys)

lemma finite_user_labels: "finite (user_labels df ta)"
  by (simp add: user_labels_def finite_group_keys)

text \<open>The int64 sum of a list is the sum of the signed values, wrapped to 64 bits.\<close>

lemma sum_list_word_of_int:
  "(sum_list ws :: 64 word) = word_of_int (sum_list (map sint ws))"
  by (induction ws) simp_all

lemma sint_sum_list:
  "sint (sum_list ws :: 64 word) = signed_take_bit 63 (sum_list (map sint ws))"
  by (subst sum_list_word_of_int) (simp add: sint_sbintrunc')

lemma float64_group_sum:
  "float64 (group_sum df u a) = real_of_int (signed_take_bit 63 (total_plays df u a))"
  by (simp add: float64_def group_sum_def total_plays_def sint_sum_list o_def)

lemma float64_group_sum_exact:
  assumes "- (2 ^ 63) \<le> total_plays df u a" and "total_plays df u a < 2 ^ 63"
  shows "float64 (group_sum df u a) = real_of_int (total_plays df u a)"
proof -
  have "signed_take_bit 63 (total_plays df u a) = total_plays df u a"
    using assms by (simp add: signed_take_bit_int_eq_self_iff)
  then show ?thesis by (simp add: float64_group_sum)
qed

text \<open>The grouped and restricted frame: one row for each pair of keys, with its sum.\<close>

lemma isin_groupby:
  "isin_artist ta (groupby_sum df) =
     map (\<lambda>k. (k, group_sum df (fst k) (snd k)))
       (filter (\<lambda>k. snd k \<in> set ta) (sorted_list_of_set (group_keys df)))"
proof -
  have eq: "(\<lambda>r. group_key r = Some k) = (\<lambda>r. user r = Some (fst k) \<and> artist r = Some (snd k))"
    for k
    by (cases k) (simp add: group_key_Some)
  show ?thesis
    by (simp add: isin_artist_def groupby_sum_def group_keys_def [symmetric] filter_map o_def
        group_sum_def eq case_prod_unfold)
qed

lemma distinct_isin_groupby: "distinct (map fst (isin_artist ta (groupby_sum df)))"
  by (simp add: isin_groupby o_def)

lemma map_of_isin_groupby:
  "map_of (isin_artist ta (groupby_sum df)) (u, a) =
     (if (u, a) \<in> group_keys df \<and> a \<in> set ta then Some (group_sum df u a) else None)"
  by (simp add: isin_groupby map_of_map_restrict restrict_map_def finite_group_keys)

lemma matrix_eq: "matrix df ta = Inr (matrix_frame df ta)"
proof -
  have i: "set (map (snd \<circ> fst) (isin_artist ta (groupby_sum df))) = item_labels df ta"
    by (auto simp: isin_groupby item_labels_eq finite_group_keys image_iff)
  have c: "set (map (fst \<circ> fst) (isin_artist ta (groupby_sum df))) = user_labels df ta"
    by (force simp: isin_groupby user_labels_eq finite_group_keys image_iff)
  show ?thesis
    unfolding matrix_def pivot_def i c matrix_frame_def
    by (simp add: distinct_isin_groupby Let_def fillna_def map_of_isin_groupby fun_eq_iff)
qed

lemma matrix_sparse_eq: "matrix_sparse df ta = Inr (csr_matrix (df_values (matrix_frame df ta)))"
  by (simp add: matrix_sparse_def matrix_eq)

lemma group_sum_no_key:
  assumes "(u, a) \<notin> group_keys df"
  shows "float64 (group_sum df u a) = 0"
proof -
  have "filter (\<lambda>r. user r = Some u \<and> artist r = Some a) df = []"
    using assms by (auto simp: group_keys_eq filter_empty_conv group_key_Some)
  then show ?thesis by (simp add: group_sum_def float64_def)
qed

lemma iloc_matrix_frame:
  assumes "i < length (index (matrix_frame df ta))" "j < length (columns (matrix_frame df ta))"
  shows "iloc (matrix_frame df ta) i j =
           float64 (group_sum df (columns (matrix_frame df ta) ! j)
             (index (matrix_frame df ta) ! i))"
proof -
  have "sorted_list_of_set (item_labels df ta) ! i \<in> set (sorted_list_of_set (item_labels df ta))"
    using assms(1) by (intro nth_mem) (simp add: matrix_frame_def)
  then have "sorted_list_of_set (item_labels df ta) ! i \<in> set ta"
    by (simp add: finite_item_labels item_labels_eq)
  then show ?thesis
    by (simp add: matrix_frame_def Let_def group_sum_no_key)
qed

lemma get_loc_index:
  assumes "a \<in> item_labels df ta"
  shows "\<exists>i. get_loc (index (matrix_frame df ta)) a = Some i \<and>
             i < length (index (matrix_frame df ta)) \<and> index (matrix_frame df ta) ! i = a"
  using assms get_loc_Some [of a "sorted_list_of_set (item_labels df ta)"]
  by (simp add: matrix_frame_def finite_item_labels)

lemma get_loc_columns:
  assumes "u \<in> user_labels df ta"
  shows "\<exists>j. get_loc (columns (matrix_frame df ta)) u = Some j \<and>
             j < length (columns (matrix_frame df ta)) \<and> columns (matrix_frame df ta) ! j = u"
  using assms get_loc_Some [of u "sorted_list_of_set (user_labels df ta)"]
  by (simp add: matrix_frame_def finite_user_labels)

lemma sp_get_csr_matrix:
  "i < nrows A \<Longrightarrow> j < ncols A \<Longrightarrow> sp_get (csr_matrix A) i j = cell A i j"
  by (simp add: sp_get_def csr_matrix_def)

text \<open>The cell of a pair that occurs in the input, read by its labels.\<close>

lemma loc_matrix_pair:
  assumes "(u, a) \<in> group_keys df" and "a \<in> set ta"
  shows "loc (matrix df ta) a u = Inr (float64 (group_sum df u a))"
    and "\<exists>i j. get_loc (index (matrix_frame df ta)) a = Some i \<and>
               get_loc (columns (matrix_frame df ta)) u = Some j \<and>
               sp_get (csr_matrix (df_values (matrix_frame df ta))) i j =
                 float64 (group_sum df u a)"
proof -
  have lab: "a \<in> item_labels df ta" "u \<in> user_labels df ta"
    using assms by (auto simp: item_labels_eq user_labels_eq)
  obtain i where i: "get_loc (index (matrix_frame df ta)) a = Some i"
    "i < length (index (matrix_frame df ta))" "index (matrix_frame df ta) ! i = a"
    using get_loc_index [OF lab(1)] by blast
  obtain j where j: "get_loc (columns (matrix_frame df ta)) u = Some j"
    "j < length (columns (matrix_frame df ta))" "columns (matrix_frame df ta) ! j = u"
    using get_loc_columns [OF lab(2)] by blast
  have v: "iloc (matrix_frame df ta) i j = float64 (group_sum df u a)"
    using iloc_matrix_frame [OF i(2) j(2)] i(3) j(3) by simp
  show "loc (matrix df ta) a u = Inr (float64 (group_sum df u a))"
    by (simp add: loc_def matrix_eq i(1) j(1) v)
  have "sp_get (csr_matrix (df_values (matrix_frame df ta))) i j = float64 (group_sum df u a)"
    using i(2) j(2) v by (simp add: sp_get_csr_matrix df_values_def)
  then show "\<exists>i j. get_loc (index (matrix_frame df ta)) a = Some i \<and>
               get_loc (columns (matrix_frame df ta)) u = Some j \<and>
               sp_get (csr_matrix (df_values (matrix_frame df ta))) i j =
                 float64 (group_sum df u a)"
    using i(1) j(1) by blast
qed

lemma group_sum_mset:
  assumes "mset df = mset df'"
  shows "group_sum df u a = group_sum df' u a"
proof -
  have "mset (map plays (filter (\<lambda>r. user r = Some u \<and> artist r = Some a) df)) =
        mset (map plays (filter (\<lambda>r. user r = Some u \<and> artist r = Some a) df'))"
    using assms by simp
  then have
    "sum_mset (mset (map plays (filter (\<lambda>r. user r = Some u \<and> artist r = Some a) df))) =
     sum_mset (mset (map plays (filter (\<lambda>r. user r = Some u \<and> artist r = Some a) df')))"
    by (rule arg_cong)
  then show ?thesis
    unfolding group_sum_def by (simp only: sum_mset_sum_list)
qed

lemma group_keys_mset:
  assumes "mset df = mset df'"
  shows "group_keys df = group_keys df'"
  using mset_eq_setD [OF assms] by (simp add: group_keys_eq)

lemma matrix_frame_cong:
  assumes "group_keys df = group_keys df'" and "\<And>u a. group_sum df u a = group_sum df' u a"
  shows "matrix_frame df ta = matrix_frame df' ta"
  unfolding matrix_frame_def item_labels_def user_labels_def assms(1) assms(2) ..

lemma group_keys_filter:
  "group_keys (filter (\<lambda>r. user r \<noteq> None \<and> artist r \<noteq> None) df) = group_keys df"
  by (auto simp: group_keys_eq group_key_def split: option.splits)

lemma group_sum_filter:
  "group_sum (filter (\<lambda>r. user r \<noteq> None \<and> artist r \<noteq> None) df) u a = group_sum df u a"
  unfolding group_sum_def by (induction df) auto

lemma total_plays_nonneg:
  assumes "\<forall>r\<in>set df. 0 \<le> sint (plays r)"
  shows "0 \<le> total_plays df u a"
  unfolding total_plays_def using assms by (intro sum_list_nonneg) auto

lemma total_plays_le_all:
  assumes "\<forall>r\<in>set df. 0 \<le> sint (plays r)"
  shows "total_plays df u a \<le> sum_list (map (\<lambda>r. sint (plays r)) df)"
  unfolding total_plays_def using assms by (induction df) auto

lemma example_large_key: "(''u1'', ''a'') \<in> group_keys example_large"
  by (simp add: group_keys_eq example_large_def group_key_def)

lemma example_full_key: "(''u1'', ''a'') \<in> group_keys example_full"
  by (simp add: group_keys_eq example_full_def group_key_def)

text \<open>
  C5 (the sum is an int64 sum). The claim makes the cell the total of the weights of its
  pair. \<^verbatim>\<open>groupby(...).sum()\<close> adds the int64 play counts with wrap-around: two rows
  of one pair with the weight \<open>2 ^ 62\<close> each have the total \<open>2 ^ 63\<close>, and the cell holds
  \<open>- 2 ^ 63\<close>.
\<close>

theorem matrix_cell_total_counterexample:
  "total_plays example_large ''u1'' ''a'' = 9223372036854775808 \<and>
   loc (matrix example_large [''a'']) ''a'' ''u1'' = Inr (- 9223372036854775808)"
proof -
  have t: "total_plays example_large ''u1'' ''a'' = 9223372036854775808"
    by (simp add: total_plays_def example_large_def)
  have "signed_take_bit 63 (9223372036854775808 :: int) = - 9223372036854775808"
    by code_simp
  then have "float64 (group_sum example_large ''u1'' ''a'') = - 9223372036854775808"
    by (simp add: float64_group_sum t)
  then show ?thesis
    using loc_matrix_pair(1) [OF example_large_key, of "[''a'']"] t by simp
qed

text \<open>
  C5 (as amended). When a pair of a user \<open>u\<close> and an item \<open>a\<close> occurs in the input rows,
  once or more often, and the item is among \<open>top_artist\<close>, the matrix has a cell for the
  two labels and the cell holds the int64 sum of the weights of all the rows of the pair:
  their total wrapped to 64 bits, which is the total itself whenever the total lies
  between \<open>- 2 ^ 63\<close> and \<open>2 ^ 63 - 1\<close>. The sparse matrix holds the same value at the
  positions of the two labels.
\<close>

theorem matrix_cell_total:
  assumes "r \<in> set df" and "user r = Some u" and "artist r = Some a" and "a \<in> set ta"
  shows "loc (matrix df ta) a u = Inr (real_of_int (signed_take_bit 63 (total_plays df u a))) \<and>
         (- (2 ^ 63) \<le> total_plays df u a \<and> total_plays df u a < 2 ^ 63 \<longrightarrow>
            loc (matrix df ta) a u = Inr (real_of_int (total_plays df u a))) \<and>
         (\<exists>m s i j. matrix df ta = Inr m \<and> matrix_sparse df ta = Inr s \<and>
            get_loc (index m) a = Some i \<and> get_loc (columns m) u = Some j \<and>
            sp_get s i j = real_of_int (signed_take_bit 63 (total_plays df u a)))"
proof -
  have k: "(u, a) \<in> group_keys df"
    using assms(1-3) by (auto simp: group_keys_eq group_key_Some)
  have 1: "loc (matrix df ta) a u = Inr (real_of_int (signed_take_bit 63 (total_plays df u a)))"
    using loc_matrix_pair(1) [OF k assms(4)] by (simp add: float64_group_sum)
  have 2: "loc (matrix df ta) a u = Inr (real_of_int (total_plays df u a))"
    if "- (2 ^ 63) \<le> total_plays df u a" "total_plays df u a < 2 ^ 63"
    using loc_matrix_pair(1) [OF k assms(4)] float64_group_sum_exact [OF that] by simp
  have 3: "\<exists>m s i j. matrix df ta = Inr m \<and> matrix_sparse df ta = Inr s \<and>
            get_loc (index m) a = Some i \<and> get_loc (columns m) u = Some j \<and>
            sp_get s i j = real_of_int (signed_take_bit 63 (total_plays df u a))"
    using loc_matrix_pair(2) [OF k assms(4)] matrix_eq [of df ta] matrix_sparse_eq [of df ta]
    unfolding float64_group_sum by blast
  from 1 2 3 show ?thesis by blast
qed

theorem matrix_cell_total_witness:
  "total_plays example_plays ''u2'' ''b'' = 3 + 2 \<and>
   loc (matrix example_plays [''a'', ''b'']) ''b'' ''u2'' = Inr (3 + 2)"
proof -
  have r: "\<lparr>user = Some ''u2'', artist = Some ''b'', plays = 3\<rparr> \<in> set example_plays"
    by (simp add: example_plays_def)
  have t: "total_plays example_plays ''u2'' ''b'' = 5"
    by (simp add: total_plays_def example_plays_def)
  from matrix_cell_total [OF r, of "''u2''" "''b''" "[''a'', ''b'']"] t
  show ?thesis by simp
qed

text \<open>
  C6. Two input sequences that are permutations of each other (and one \<open>top_artist\<close>)
  give the same matrix: the same row labels and column labels at the same positions and
  the same cells, and so the same sparse matrix. The labels are sorted and distinct,
  strings being ordered lexically.
\<close>

theorem matrix_permutation:
  assumes "mset df = mset df'"
  shows "matrix df ta = matrix df' ta \<and> matrix_sparse df ta = matrix_sparse df' ta \<and>
         (\<exists>m. matrix df ta = Inr m \<and> sorted (index m) \<and> distinct (index m) \<and>
              sorted (columns m) \<and> distinct (columns m))"
proof -
  have "sorted (index (matrix_frame df ta))" "distinct (index (matrix_frame df ta))"
    "sorted (columns (matrix_frame df ta))" "distinct (columns (matrix_frame df ta))"
    by (simp_all add: matrix_frame_def)
  then show ?thesis
    using matrix_frame_cong [OF group_keys_mset [OF assms] group_sum_mset [OF assms], of ta]
    by (simp add: matrix_eq matrix_sparse_eq)
qed

theorem matrix_permutation_witness:
  "mset example_plays = mset (rev example_plays) \<and>
   matrix example_plays [''a'', ''b''] = matrix (rev example_plays) [''a'', ''b''] \<and>
   matrix_sparse example_plays [''a'', ''b''] = matrix_sparse (rev example_plays) [''a'', ''b'']"
  using matrix_permutation [of example_plays "rev example_plays" "[''a'', ''b'']"] by simp

text \<open>
  C7 (the build does not validate). The claim makes the build fail on a negative weight
  and on an empty identifier. The notebook checks neither: a row with the weight \<open>-3\<close>
  and a row whose user is the empty string both build a matrix, holding \<open>-3\<close> and \<open>1\<close>.
\<close>

theorem validation_counterexample:
  "loc (matrix [\<lparr>user = Some ''u1'', artist = Some ''a'', plays = - 3\<rparr>] [''a'']) ''a'' ''u1'' =
     Inr (- 3) \<and>
   loc (matrix [\<lparr>user = Some [], artist = Some ''a'', plays = 1\<rparr>] [''a'']) ''a'' [] = Inr 1"
  by (simp add: loc_def matrix_def pivot_def isin_artist_def groupby_sum_def List.map_filter_def
      group_key_def fillna_def Let_def float64_def)

text \<open>
  C7 (as amended). The build raises on no input: for every sequence of rows it returns a
  matrix and its sparse form, whatever the weights and identifiers are; the rows with a
  missing user or artist are left out by the grouping, so the result is that of the
  sequence without them.
\<close>

theorem matrix_never_fails:
  "(\<exists>m. matrix df ta = Inr m \<and> matrix_sparse df ta = Inr (csr_matrix (df_values m))) \<and>
   matrix df ta = matrix (filter (\<lambda>r. user r \<noteq> None \<and> artist r \<noteq> None) df) ta"
proof -
  have "matrix_frame (filter (\<lambda>r. user r \<noteq> None \<and> artist r \<noteq> None) df) ta = matrix_frame df ta"
    by (rule matrix_frame_cong) (rule group_keys_filter, rule group_sum_filter)
  then show ?thesis
    by (simp only: matrix_eq matrix_sparse_eq) blast
qed

text \<open>
  C10 (the int64 sum can turn negative). The claim makes every cell non-negative when no
  weight is negative. Two rows of one pair with the weights \<open>2 ^ 63 - 1\<close> and 1, both
  non-negative, have the int64 sum \<open>- 2 ^ 63\<close>, and that is the cell.
\<close>

theorem matrix_nonneg_counterexample:
  "0 \<le> sint (plays (example_full ! 0)) \<and> 0 \<le> sint (plays (example_full ! 1)) \<and>
   loc (matrix example_full [''a'']) ''a'' ''u1'' = Inr (- 9223372036854775808)"
proof -
  have t: "total_plays example_full ''u1'' ''a'' = 9223372036854775808"
    by (simp add: total_plays_def example_full_def)
  have "signed_take_bit 63 (9223372036854775808 :: int) = - 9223372036854775808"
    by code_simp
  then have "float64 (group_sum example_full ''u1'' ''a'') = - 9223372036854775808"
    by (simp add: float64_group_sum t)
  moreover have "0 \<le> sint (plays (example_full ! 0))" "0 \<le> sint (plays (example_full ! 1))"
    by (simp_all add: example_full_def)
  ultimately show ?thesis
    using loc_matrix_pair(1) [OF example_full_key, of "[''a'']"] by simp
qed

text \<open>
  C10 (as amended). When no input weight is negative and the total of the weights of
  every pair of a user and an item is below \<open>2 ^ 63\<close>, so that no int64 sum wraps, the
  build returns a matrix whose every cell is the total of the input weights of its user
  and item (zero for a pair without a row, which \<^verbatim>\<open>fillna\<close> fills in) and is not
  negative; the sparse matrix has the same shape and reads the same value in every cell.
\<close>

theorem matrix_nonneg:
  assumes "\<forall>r\<in>set df. 0 \<le> sint (plays r)" and "\<forall>u a. total_plays df u a < 2 ^ 63"
  shows "\<exists>m s. matrix df ta = Inr m \<and> matrix_sparse df ta = Inr s \<and>
           sp_nrows s = length (index m) \<and> sp_ncols s = length (columns m) \<and>
           (\<forall>i<length (index m). \<forall>j<length (columns m).
              0 \<le> iloc m i j \<and> sp_get s i j = iloc m i j \<and>
              iloc m i j = real_of_int (total_plays df (columns m ! j) (index m ! i)))"
proof -
  let ?m = "matrix_frame df ta"
  have exact: "float64 (group_sum df u a) = real_of_int (total_plays df u a)" for u a
  proof (rule float64_group_sum_exact)
    have "0 \<le> total_plays df u a"
      by (rule total_plays_nonneg [OF assms(1)])
    then show "- (2 ^ 63) \<le> total_plays df u a"
      by simp
    show "total_plays df u a < 2 ^ 63"
      using assms(2) by blast
  qed
  have "0 \<le> iloc ?m i j \<and> sp_get (csr_matrix (df_values ?m)) i j = iloc ?m i j \<and>
        iloc ?m i j = real_of_int (total_plays df (columns ?m ! j) (index ?m ! i))"
    if "i < length (index ?m)" "j < length (columns ?m)" for i j
    using that iloc_matrix_frame [OF that] total_plays_nonneg [OF assms(1)]
    by (simp add: sp_get_csr_matrix df_values_def exact)
  moreover have "sp_nrows (csr_matrix (df_values ?m)) = length (index ?m)"
    "sp_ncols (csr_matrix (df_values ?m)) = length (columns ?m)"
    by (simp_all add: csr_matrix_def df_values_def)
  ultimately show ?thesis
    using matrix_eq [of df ta] matrix_sparse_eq [of df ta] by blast
qed

theorem matrix_nonneg_witness:
  "\<exists>m s. matrix example_plays [''a'', ''b''] = Inr m \<and>
          matrix_sparse example_plays [''a'', ''b''] = Inr s \<and>
          sp_nrows s = length (index m) \<and> sp_ncols s = length (columns m) \<and>
          (\<forall>i<length (index m). \<forall>j<length (columns m).
              0 \<le> iloc m i j \<and> sp_get s i j = iloc m i j \<and>
              iloc m i j = real_of_int (total_plays example_plays (columns m ! j) (index m ! i)))"
proof -
  have nn: "\<forall>r\<in>set example_plays. 0 \<le> sint (plays r)"
    by (simp add: example_plays_def)
  have all: "sum_list (map (\<lambda>r. sint (plays r)) example_plays) = 22"
    by (simp add: example_plays_def)
  have "total_plays example_plays u a < 2 ^ 63" for u a
    using total_plays_le_all [OF nn, of u a] all by simp
  then have "\<forall>u a. total_plays example_plays u a < 2 ^ 63"
    by blast
  from matrix_nonneg [OF nn this] show ?thesis .
qed

section \<open>Properties of the recommender\<close>

lemma distinct_eligible_items:
  assumes "distinct items"
  shows "distinct (map fst (map (\<lambda>j. (items ! j, cell P u j)) (eligible W items e u)))"
proof -
  have "distinct (map ((!) items) (eligible W items e u))"
    unfolding eligible_def
    by (rule distinct_map_filter) (simp add: map_nth assms)
  then show ?thesis by (simp add: o_def)
qed

lemma ranking_order:
  "((- s, a) \<le> (- t, b)) = (t < s \<or> s = t \<and> a \<le> b)" for s t :: real and a b :: string
  by (auto simp: less_eq_prod_def)

text \<open>
  C9. Over distinct item identifiers, for every user \<open>u\<close> and every \<open>N\<close>,
  \<open>recommend\<close> returns at most \<open>N\<close> pairs, as many as \<open>N\<close> and the number of eligible
  items allow (all the eligible items when they are not more than \<open>N\<close>), each an eligible
  item with its score, no item twice, sorted by descending score and, among equal
  scores, by ascending identifier.
\<close>

theorem recommend_ranked:
  assumes "distinct items"
  shows "length (recommend P W items e u N) = min N (length (eligible W items e u)) \<and>
         length (recommend P W items e u N) \<le> N \<and>
         distinct (map fst (recommend P W items e u N)) \<and>
         sorted_wrt (\<lambda>(a, s) (b, t). t < s \<or> s = t \<and> a \<le> b) (recommend P W items e u N) \<and>
         set (recommend P W items e u N) \<subseteq>
           (\<lambda>j. (items ! j, cell P u j)) ` set (eligible W items e u) \<and>
         (length (eligible W items e u) \<le> N \<longrightarrow>
            set (recommend P W items e u N) =
              (\<lambda>j. (items ! j, cell P u j)) ` set (eligible W items e u))"
proof -
  let ?c = "map (\<lambda>j. (items ! j, cell P u j)) (eligible W items e u)"
  let ?k = "\<lambda>(a, s). (- s, a :: string)"
  let ?s = "sort_key ?k ?c"
  have len: "length (take N ?s) = min N (length (eligible W items e u))"
    by (simp add: min.commute)
  have "mset ?s = mset ?c"
    by (rule mset_sort)
  then have "image_mset fst (mset ?s) = image_mset fst (mset ?c)"
    by (rule arg_cong)
  then have "mset (map fst ?s) = mset (map fst ?c)"
    by (simp only: mset_map)
  then have "distinct (map fst ?s) \<longleftrightarrow> distinct (map fst ?c)"
    by (rule mset_eq_imp_distinct_iff)
  then have "distinct (map fst ?s)"
    using distinct_eligible_items [OF assms, of P u W e] by simp
  then have dis: "distinct (map fst (take N ?s))"
    by (simp add: take_map [symmetric] distinct_take)
  have "sorted (map ?k ?s)"
    by (rule sorted_sort_key)
  then have "sorted_wrt (\<lambda>x y. ?k x \<le> ?k y) ?s"
    by (simp add: sorted_map)
  then have "sorted_wrt (\<lambda>(a, s) (b, t). t < s \<or> s = t \<and> a \<le> b) ?s"
    by (rule sorted_wrt_mono_rel [rotated]) (auto simp: ranking_order)
  then have srt: "sorted_wrt (\<lambda>(a, s) (b, t). t < s \<or> s = t \<and> a \<le> b) (take N ?s)"
    by (rule sorted_wrt_take)
  have "set (take N ?s) \<subseteq> set ?s"
    by (rule set_take_subset)
  then have sub: "set (take N ?s) \<subseteq> (\<lambda>j. (items ! j, cell P u j)) ` set (eligible W items e u)"
    by simp
  have all: "set (take N ?s) = (\<lambda>j. (items ! j, cell P u j)) ` set (eligible W items e u)"
    if "length (eligible W items e u) \<le> N"
    using that by simp
  show ?thesis
    unfolding recommend_def using len dis srt sub all by simp
qed

theorem recommend_ranked_witness:
  "recommend example_scores example_seen example_items True 0 2 = [(''b'', 3), (''c'', 3)] \<and>
   length (recommend example_scores example_seen example_items True 0 2) \<le> 2 \<and>
   distinct (map fst (recommend example_scores example_seen example_items True 0 2))"
proof -
  have d: "distinct example_items"
    by (simp add: example_items_def)
  have "recommend example_scores example_seen example_items True 0 2 = [(''b'', 3), (''c'', 3)]"
    unfolding example_scores_def example_seen_def example_items_def by code_simp
  with recommend_ranked [OF d, of example_scores example_seen True 0 2] show ?thesis
    by simp
qed

end
